theory Spec2Isabelle
  imports Complex_Main
begin

section \<open>Data model of \<open>src/App.tsx\<close>\<close>

text \<open>
  A JavaScript \<open>number\<close> is an IEEE binary64 value. The finite ones are rationals, and
  the model takes a number to be a rational; \<open>NaN\<close> and the two infinities are not
  values of the model. Comparison (\<open>===\<close>) and \<open>Math.abs\<close> are exact on doubles. The
  one operation of the source that rounds is the subtraction in \<open>canMove\<close>: its result
  is the exact difference rounded to the nearest double, ties to the even significand.
\<close>

type_synonym number = rat

text \<open>Rounding a rational to the nearest integer, a tie going to the even one.\<close>

definition roundHalfEven :: "rat \<Rightarrow> int" where
  "roundHalfEven q =
     (let n = \<lfloor>q\<rfloor>; r = q - of_int n
      in if r < 1 / 2 then n else if 1 / 2 < r then n + 1
         else if even n then n else n + 1)"

text \<open>
  The binary exponent of a positive \<open>x\<close>: the \<open>e\<close> with \<open>2^e \<le> x < 2^(e+1)\<close>, searched
  upwards from 0 or downwards from \<open>-1\<close>, and kept within the exponents of binary64:
  not below \<open>-1022\<close> (below \<open>2^-1022\<close> the doubles are subnormal and equally spaced) and
  not above 1024.
\<close>

fun binadeUp :: "nat \<Rightarrow> int \<Rightarrow> rat \<Rightarrow> int" where
  "binadeUp fuel e x =
     (if fuel = 0 \<or> x < 2 powi (e + 1) then e else binadeUp (fuel - 1) (e + 1) x)"

fun binadeDown :: "nat \<Rightarrow> int \<Rightarrow> rat \<Rightarrow> int" where
  "binadeDown fuel e x =
     (if fuel = 0 \<or> 2 powi e \<le> x then e else binadeDown (fuel - 1) (e - 1) x)"

definition binade :: "rat \<Rightarrow> int" where
  "binade x = (if 1 \<le> x then binadeUp 1024 0 x else binadeDown 1021 (- 1) x)"

text \<open>
  Rounding to binary64: the significand has 53 bits, so the doubles around \<open>x\<close> are the
  multiples of \<open>2^(binade |x| - 52)\<close>. A value beyond the largest double rounds to a
  rational of magnitude at least \<open>2^1024\<close>, which stands for the infinity the hardware
  returns: like it, it differs from 0, 1 and \<open>-1\<close>, the only values \<open>canMove\<close> compares a
  difference with.
\<close>

definition round64 :: "rat \<Rightarrow> rat" where
  "round64 x =
     (if x = 0 then 0
      else let ulp = 2 powi (binade \<bar>x\<bar> - 52)
           in sgn x * of_int (roundHalfEven (\<bar>x\<bar> / ulp)) * ulp)"

text \<open>The operator \<open>-\<close> on numbers.\<close>

definition minus64 :: "number \<Rightarrow> number \<Rightarrow> number" where
  "minus64 a b = round64 (a - b)"

text \<open>\<open>export type Coord = [number, number]\<close>: row first, column second.\<close>

type_synonym Coord = "number \<times> number"

text \<open>
  \<open>export type PieceType = "king" | "pawn"\<close>. At run time a piece type is a string, and
  \<open>canMove\<close> switches over it with a \<open>default\<close> branch, so the model keeps the string.
\<close>

type_synonym PieceType = string

record PieceRecord =
  type :: PieceType
  location :: Coord

definition isEqualCoord :: "Coord \<Rightarrow> Coord \<Rightarrow> bool" where
  "isEqualCoord c1 c2 \<longleftrightarrow> fst c1 = fst c2 \<and> snd c1 = snd c2"

text \<open>
  \<open>canMove\<close>: \<open>pieces.find(...)\<close> yields the first piece on the destination or
  \<open>undefined\<close>; a piece object is truthy, so the \<open>if\<close> fires exactly when one is found.
  \<open>[0, 1].includes(x)\<close> is membership in the two-element array.
\<close>

definition canMove :: "Coord \<Rightarrow> Coord \<Rightarrow> PieceType \<Rightarrow> PieceRecord list \<Rightarrow> bool" where
  "canMove start destination pieceType pieces =
     (let rowDist = \<bar>minus64 (fst start) (fst destination)\<bar>;
          colDist = \<bar>minus64 (snd start) (snd destination)\<bar>
      in if find (\<lambda>piece. isEqualCoord (location piece) destination) pieces \<noteq> None
         then False
         else if pieceType = ''king''
           then rowDist \<in> set [0, 1] \<and> colDist \<in> set [0, 1]
         else if pieceType = ''pawn''
           then colDist = 0 \<and> minus64 (fst start) (fst destination) = - 1
         else False)"

section \<open>Values of unknown shape and the two type guards\<close>

text \<open>
  The data a drag carries is typed \<open>unknown\<close>, so the guards \<open>isCoord\<close> and
  \<open>isPieceType\<close> inspect arbitrary JavaScript values. Arrays are dense lists.
\<close>

datatype jsval =
    JUndefined
  | JNull
  | JBoolean bool
  | JNumber number
  | JString string
  | JArray "jsval list"
  | JObject "(string \<times> jsval) list"

text \<open>\<open>typeof val === "number"\<close>\<close>

fun isNumber :: "jsval \<Rightarrow> bool" where
  "isNumber (JNumber n) = True"
| "isNumber v = False"

text \<open>\<open>Array.isArray(token) && token.length === 2 && token.every(...)\<close>\<close>

fun isCoord :: "jsval \<Rightarrow> bool" where
  "isCoord (JArray token) = (length token = 2 \<and> list_all isNumber token)"
| "isCoord token = False"

definition pieceTypes :: "PieceType list" where
  "pieceTypes = [''king'', ''pawn'']"

text \<open>\<open>typeof value === "string" && pieceTypes.includes(value)\<close>\<close>

fun isPieceType :: "jsval \<Rightarrow> bool" where
  "isPieceType (JString v) = (v \<in> set pieceTypes)"
| "isPieceType v = False"

text \<open>
  A guard narrows the static type only; the value is the same. In the model the narrowed
  value is read off by \<open>toCoord\<close> (the entries \<open>token[0]\<close>, \<open>token[1]\<close>) and
  \<open>toPieceType\<close>, which are defined exactly where the guards hold
  (lemmas \<open>isCoord_toCoord\<close>, \<open>isPieceType_toPieceType\<close>). \<open>fromCoord\<close> is the array a
  coordinate is at run time.
\<close>

fun toCoord :: "jsval \<Rightarrow> Coord option" where
  "toCoord (JArray [JNumber r, JNumber c]) = Some (r, c)"
| "toCoord token = None"

fun toPieceType :: "jsval \<Rightarrow> PieceType option" where
  "toPieceType (JString v) = (if v \<in> set pieceTypes then Some v else None)"
| "toPieceType v = None"

definition fromCoord :: "Coord \<Rightarrow> jsval" where
  "fromCoord c = JArray [JNumber (fst c), JNumber (snd c)]"

section \<open>The hover state of a square\<close>

datatype HoveredState = idle | validMove | invalidMove

text \<open>
  The \<open>data\<close> of a drag source or of a drop target is a record of unknown values; reading
  a property that is not there gives \<open>undefined\<close>.
\<close>

type_synonym data = "string \<Rightarrow> jsval"

definition emptyData :: data where
  "emptyData = (\<lambda>key. JUndefined)"

text \<open>\<open>getInitialData: () => ({ location, pieceType })\<close> of a piece.\<close>

definition Piece_getInitialData :: "Coord \<Rightarrow> PieceType \<Rightarrow> data" where
  "Piece_getInitialData loc pieceType =
     emptyData(''location'' := fromCoord loc, ''pieceType'' := JString pieceType)"

text \<open>\<open>getData: () => ({ location })\<close> of a square.\<close>

definition Square_getData :: "Coord \<Rightarrow> data" where
  "Square_getData loc = emptyData(''location'' := fromCoord loc)"

text \<open>
  The callbacks a square registers as a drop target. \<open>pieces\<close> and \<open>loc\<close> are the
  square's props, \<open>source\<close> is \<open>source.data\<close>, \<open>state\<close> the current hover state; each
  callback returns the state after it.
\<close>

definition Square_canDrop :: "Coord \<Rightarrow> data \<Rightarrow> bool" where
  "Square_canDrop loc source =
     (if \<not> isCoord (source ''location'') then False
      else case toCoord (source ''location'') of
             Some src \<Rightarrow> \<not> isEqualCoord src loc
           | None \<Rightarrow> False)"

definition Square_onDragEnter ::
  "PieceRecord list \<Rightarrow> Coord \<Rightarrow> data \<Rightarrow> HoveredState \<Rightarrow> HoveredState" where
  "Square_onDragEnter pieces loc source state =
     (if \<not> isCoord (source ''location'') \<or> \<not> isPieceType (source ''pieceType'')
      then state
      else case (toCoord (source ''location''), toPieceType (source ''pieceType'')) of
             (Some src, Some pieceType) \<Rightarrow>
               if canMove src loc pieceType pieces then validMove else invalidMove
           | _ \<Rightarrow> state)"

definition Square_onDragLeave :: "HoveredState \<Rightarrow> HoveredState" where
  "Square_onDragLeave state = idle"

definition Square_onDrop :: "HoveredState \<Rightarrow> HoveredState" where
  "Square_onDrop state = idle"

section \<open>The board state and the drop handler\<close>

text \<open>
  The drop handler removes the moved piece with \<open>pieces.filter((p) => p !== piece)\<close>,
  which compares object identities, not contents. A piece object is therefore its
  identity (a reference) together with its contents; the objects are never mutated, so
  no separate heap is needed. The state of \<open>Chessboard\<close> is the array of piece objects.
\<close>

type_synonym ref = nat

type_synonym PieceObj = "ref \<times> PieceRecord"

text \<open>
  An object literal allocates an object whose identity differs from every object of the
  current array.
\<close>

definition freshRef :: "PieceObj list \<Rightarrow> ref" where
  "freshRef pieces = Suc (foldr max (map fst pieces) 0)"

text \<open>\<open>useState<PieceRecord[]>([{ type: "king", location: [3, 2] }, { type: "pawn", location: [1, 6] }])\<close>\<close>

definition initialPieces :: "PieceObj list" where
  "initialPieces =
     [(0, \<lparr>type = ''king'', location = (3, 2)\<rparr>),
      (1, \<lparr>type = ''pawn'', location = (1, 6)\<rparr>)]"

text \<open>
  A drop event as the monitor sees it: \<open>source.data\<close>, and the \<open>data\<close> of each drop
  target under the release point (\<open>location.current.dropTargets\<close>), innermost first.
\<close>

record DropEvent =
  source :: data
  dropTargets :: "data list"

text \<open>
  \<open>onDrop\<close> of \<open>monitorForElements\<close>. Every \<open>return\<close> without \<open>setPieces\<close> leaves the
  state as it is. The handler contains no \<open>throw\<close>, and no property is read from
  \<open>undefined\<close>: \<open>dropTargets[0]\<close> is tested first, and \<open>piece.type\<close> is read only behind
  \<open>piece !== undefined\<close>.
\<close>

definition Chessboard_onDrop :: "PieceObj list \<Rightarrow> DropEvent \<Rightarrow> PieceObj list" where
  "Chessboard_onDrop pieces ev =
     (case dropTargets ev of
        [] \<Rightarrow> pieces
      | destination # _ \<Rightarrow>
          let destinationLocation = destination ''location'';
              sourceLocation = source ev ''location'';
              pieceType = source ev ''pieceType''
          in if \<not> isCoord destinationLocation \<or> \<not> isCoord sourceLocation
                \<or> \<not> isPieceType pieceType
             then pieces
             else case (toCoord destinationLocation, toCoord sourceLocation,
                        toPieceType pieceType) of
                 (Some dst, Some src, Some kind) \<Rightarrow>
                   let piece = find (\<lambda>p. isEqualCoord (location (snd p)) src) pieces;
                       restOfPieces = filter (\<lambda>p. Some (fst p) \<noteq> map_option fst piece) pieces
                   in (case piece of
                         Some found \<Rightarrow>
                           if canMove src dst kind (map snd pieces)
                           then (freshRef pieces,
                                 \<lparr>type = type (snd found), location = dst\<rparr>) # restOfPieces
                           else pieces
                       | None \<Rightarrow> pieces)
               | _ \<Rightarrow> pieces)"

text \<open>
  The event the monitor receives when a piece registered with the payload
  \<open>{ location: src, pieceType }\<close> is released over the single square \<open>dst\<close>.
\<close>

definition dropOn :: "Coord \<Rightarrow> PieceType \<Rightarrow> Coord \<Rightarrow> DropEvent" where
  "dropOn src pieceType dst =
     \<lparr>source = Piece_getInitialData src pieceType, dropTargets = [Square_getData dst]\<rparr>"

text \<open>
  The boards the component can hold: the initial one, and every board a drop event
  (with any payload, also a foreign one) leads to.
\<close>

inductive reachable :: "PieceObj list \<Rightarrow> bool" where
  reachable_init: "reachable initialPieces"
| reachable_drop: "reachable pieces \<Longrightarrow> reachable (Chessboard_onDrop pieces ev)"

section \<open>Basic facts\<close>

lemma isEqualCoord_eq: "isEqualCoord c1 c2 \<longleftrightarrow> c1 = c2"
  by (auto simp: isEqualCoord_def prod_eq_iff)

lemma isCoord_toCoord: "isCoord v \<longleftrightarrow> (\<exists>c. toCoord v = Some c)"
  by (cases v rule: toCoord.cases) auto

lemma isPieceType_toPieceType: "isPieceType v \<longleftrightarrow> (\<exists>k. toPieceType v = Some k)"
  by (cases v) auto

lemma toCoord_fromCoord: "toCoord (fromCoord c) = Some c"
  by (simp add: fromCoord_def)

section \<open>Rounding of differences\<close>

declare binadeUp.simps [simp del] binadeDown.simps [simp del]

lemma round64_0: "round64 0 = 0"
  by (simp add: round64_def)

lemma binade_1: "binade 1 = 0"
  by (simp add: binade_def binadeUp.simps)

lemma round64_1: "round64 1 = 1"
  by (simp add: round64_def binade_1 roundHalfEven_def Let_def)

lemma round64_m1: "round64 (- 1) = - 1"
  by (simp add: round64_def binade_1 roundHalfEven_def Let_def)

lemma binadeUp_ge: "e \<le> binadeUp fuel e x"
proof (induction fuel arbitrary: e)
  case 0
  show ?case by (simp add: binadeUp.simps)
next
  case (Suc fuel)
  from Suc [of "e + 1"] show ?case by (simp add: binadeUp.simps [of "Suc fuel"])
qed

lemma binadeUp_le: "2 powi e \<le> x \<Longrightarrow> 2 powi (binadeUp fuel e x) \<le> x"
proof (induction fuel arbitrary: e)
  case 0
  then show ?case by (simp add: binadeUp.simps)
next
  case (Suc fuel)
  show ?case
  proof (cases "x < 2 powi (e + 1)")
    case True
    with Suc.prems show ?thesis by (simp add: binadeUp.simps [of "Suc fuel"])
  next
    case False
    then have "2 powi (e + 1) \<le> x" by simp
    then have "2 powi (binadeUp fuel (e + 1) x) \<le> x" by (rule Suc.IH)
    with False show ?thesis by (simp add: binadeUp.simps [of "Suc fuel"])
  qed
qed

lemma roundHalfEven_ge_floor: "\<lfloor>q\<rfloor> \<le> roundHalfEven q"
  by (simp add: roundHalfEven_def Let_def)

lemma binade_ge_2:
  assumes "2 \<le> x"
  shows "1 \<le> binade x" and "2 powi (binade x) \<le> x"
proof -
  from assms have eq: "binade x = binadeUp 1023 1 x"
    by (simp add: binade_def binadeUp.simps [of 1024])
  show "1 \<le> binade x" unfolding eq by (rule binadeUp_ge)
  from assms have "2 powi 1 \<le> x" by simp
  then show "2 powi (binade x) \<le> x" unfolding eq by (rule binadeUp_le)
qed

lemma round64_ge_2:
  assumes "2 \<le> \<bar>x\<bar>"
  shows "2 \<le> \<bar>round64 x\<bar>"
proof -
  define E where "E = binade \<bar>x\<bar>"
  define ulp :: rat where "ulp = 2 powi (E - 52)"
  define n where "n = roundHalfEven (\<bar>x\<bar> / ulp)"
  from assms have E: "1 \<le> E" "2 powi E \<le> \<bar>x\<bar>"
    unfolding E_def by (rule binade_ge_2)+
  have ulp_pos: "0 < ulp" by (simp add: ulp_def)
  have split: "(2::rat) powi E = 2 ^ 52 * ulp"
    by (simp add: ulp_def power_int_diff)
  with E(2) ulp_pos have "(2::rat) ^ 52 \<le> \<bar>x\<bar> / ulp"
    by (simp add: pos_le_divide_eq)
  then have "of_int (2 ^ 52) \<le> \<bar>x\<bar> / ulp" by simp
  then have "(2::int) ^ 52 \<le> \<lfloor>\<bar>x\<bar> / ulp\<rfloor>" by (rule le_floor_iff [THEN iffD2])
  also have "\<dots> \<le> n" unfolding n_def by (rule roundHalfEven_ge_floor)
  finally have n: "(2::int) ^ 52 \<le> n" .
  then have "(2::rat) ^ 52 \<le> of_int n"
    by (metis of_int_le_iff of_int_numeral of_int_power)
  then have "2 ^ 52 * ulp \<le> of_int n * ulp"
    using ulp_pos by (simp add: mult_right_mono)
  with split have "2 powi E \<le> of_int n * ulp" by simp
  moreover from E(1) have "(2::rat) powi 1 \<le> 2 powi E"
    by (intro power_int_increasing) simp_all
  ultimately have ge: "2 \<le> of_int n * ulp" by simp
  from assms have nz: "x \<noteq> 0" by auto
  then have "round64 x = sgn x * of_int n * ulp"
    by (simp add: round64_def Let_def n_def ulp_def E_def)
  then have "\<bar>round64 x\<bar> = \<bar>of_int n * ulp\<bar>"
    using nz by (simp add: abs_mult abs_sgn_eq mult.assoc)
  with ge show ?thesis by simp
qed

lemma round64_Ints:
  assumes "d \<in> \<int>"
  shows "round64 d = 0 \<longleftrightarrow> d = 0"
    and "round64 d = - 1 \<longleftrightarrow> d = - 1"
    and "\<bar>round64 d\<bar> = 1 \<longleftrightarrow> \<bar>d\<bar> = 1"
proof -
  from assms obtain k :: int where k: "d = of_int k" by (rule Ints_cases)
  consider "k = 0" | "k = 1" | "k = - 1" | "2 \<le> \<bar>k\<bar>" by linarith
  then have "(round64 d = 0 \<longleftrightarrow> d = 0) \<and> (round64 d = - 1 \<longleftrightarrow> d = - 1)
      \<and> (\<bar>round64 d\<bar> = 1 \<longleftrightarrow> \<bar>d\<bar> = 1)"
  proof cases
    case 1
    with k show ?thesis by (simp add: round64_0)
  next
    case 2
    with k show ?thesis by (simp add: round64_1)
  next
    case 3
    with k show ?thesis by (simp add: round64_m1)
  next
    case 4
    then have big: "2 \<le> \<bar>d\<bar>" unfolding k by (metis of_int_abs of_int_le_iff of_int_numeral)
    then have "2 \<le> \<bar>round64 d\<bar>" by (rule round64_ge_2)
    with big show ?thesis by auto
  qed
  then show "round64 d = 0 \<longleftrightarrow> d = 0"
    and "round64 d = - 1 \<longleftrightarrow> d = - 1"
    and "\<bar>round64 d\<bar> = 1 \<longleftrightarrow> \<bar>d\<bar> = 1" by simp_all
qed

text \<open>
  On integers the rounded difference is 0, \<open>-1\<close> or of magnitude 1 exactly when the
  exact difference is: the small integers are doubles, and rounding keeps a value of
  magnitude at least 2 at magnitude at least 2.
\<close>

lemma minus64_Ints:
  assumes "a \<in> \<int>" and "b \<in> \<int>"
  shows "minus64 a b = 0 \<longleftrightarrow> a = b"
    and "minus64 a b = - 1 \<longleftrightarrow> a - b = - 1"
    and "\<bar>minus64 a b\<bar> = 1 \<longleftrightarrow> \<bar>a - b\<bar> = 1"
proof -
  from assms have d: "a - b \<in> \<int>" by (rule Ints_diff)
  show "minus64 a b = 0 \<longleftrightarrow> a = b"
    using round64_Ints(1) [OF d] by (simp add: minus64_def)
  show "minus64 a b = - 1 \<longleftrightarrow> a - b = - 1"
    using round64_Ints(2) [OF d] by (simp add: minus64_def)
  show "\<bar>minus64 a b\<bar> = 1 \<longleftrightarrow> \<bar>a - b\<bar> = 1"
    using round64_Ints(3) [OF d] by (simp add: minus64_def)
qed

lemma minus64_self: "minus64 a a = 0"
  by (simp add: minus64_def round64_0)

text \<open>
  Where the exact difference is not a double the rounding shows: \<open>2^-60 - 1\<close> is \<open>-1\<close>,
  and the doubles nearest to 0.1 and 1.1 differ by 1 in magnitude.
\<close>

lemma minus64_rounds:
  "minus64 (1 / 2 ^ 60) 1 = - 1"
  "\<bar>minus64 (3602879701896397 / 2 ^ 55) (2476979795053773 / 2 ^ 51)\<bar> = 1"
  by code_simp+

section \<open>The rule evaluator\<close>

lemma canMove_iff:
  "canMove start destination pieceType pieces \<longleftrightarrow>
     (\<forall>piece \<in> set pieces. location piece \<noteq> destination) \<and>
     (pieceType = ''king'' \<and> \<bar>minus64 (fst start) (fst destination)\<bar> \<in> {0, 1}
                           \<and> \<bar>minus64 (snd start) (snd destination)\<bar> \<in> {0, 1}
      \<or> pieceType = ''pawn'' \<and> \<bar>minus64 (snd start) (snd destination)\<bar> = 0
                             \<and> minus64 (fst start) (fst destination) = - 1)"
  by (auto simp: canMove_def Let_def find_None_iff isEqualCoord_eq)

text \<open>
  Two moves between fractional coordinates that the code accepts because the difference
  rounds: a pawn from row \<open>2^-60\<close> to row 1, and a king from the double nearest 0.1 to
  the double nearest 1.1.
\<close>

lemma canMove_rounds:
  "canMove (1 / 2 ^ 60, 6) (1, 6) ''pawn'' []"
  "canMove (3602879701896397 / 2 ^ 55, 6) (2476979795053773 / 2 ^ 51, 6) ''king'' []"
  using minus64_rounds by (simp_all add: canMove_iff minus64_self)

text \<open>On integer-valued coordinates \<open>canMove\<close> decides by the exact differences.\<close>

lemma canMove_Ints:
  assumes "r \<in> \<int>" and "c \<in> \<int>" and "r' \<in> \<int>" and "c' \<in> \<int>"
  shows "canMove (r, c) (r', c') pieceType pieces \<longleftrightarrow>
     (\<forall>piece \<in> set pieces. location piece \<noteq> (r', c')) \<and>
     (pieceType = ''king'' \<and> \<bar>r - r'\<bar> \<in> {0, 1} \<and> \<bar>c - c'\<bar> \<in> {0, 1}
      \<or> pieceType = ''pawn'' \<and> c = c' \<and> r - r' = - 1)"
  using minus64_Ints [OF assms(1,3)] minus64_Ints [OF assms(2,4)]
  by (auto simp: canMove_iff)

text \<open>
  C2 (occupancy rejection). If any piece of the board sits on the destination, \<open>canMove\<close>
  returns false, for every origin, every piece type (also an unknown one) and every board.
\<close>

theorem canMove_occupied:
  assumes "\<exists>piece \<in> set pieces. isEqualCoord (location piece) destination"
  shows "\<not> canMove start destination pieceType pieces"
  using assms by (auto simp: canMove_iff isEqualCoord_eq)


theorem canMove_occupied_witness:
  "(\<exists>piece \<in> set (map snd initialPieces). isEqualCoord (location piece) (1, 6))
   \<and> \<not> canMove (3, 2) (1, 6) ''king'' (map snd initialPieces)"
proof -
  have occ: "\<exists>piece \<in> set (map snd initialPieces). isEqualCoord (location piece) (1, 6)"
    by (simp add: initialPieces_def isEqualCoord_def)
  from occ canMove_occupied [OF occ] show ?thesis by blast
qed

text \<open>
  C1 (pawn legality), as the code has it. On a board whose destination square is free,
  a pawn move is legal exactly when the column difference is 0 and
  \<open>start[0] - destination[0] === -1\<close>, the differences being those the code computes.
  For integer-valued coordinates, the coordinates of the spec, they are the exact ones:
  the move is legal exactly when the column does not change and the destination row
  is the origin row plus one, one square in the direction of increasing rows, never
  sideways or back.
\<close>

theorem canMove_pawn:
  assumes "\<forall>piece \<in> set pieces. \<not> isEqualCoord (location piece) destination"
  shows "(canMove start destination ''pawn'' pieces \<longleftrightarrow>
            \<bar>minus64 (snd start) (snd destination)\<bar> = 0
            \<and> minus64 (fst start) (fst destination) = - 1)
       \<and> (fst start \<in> \<int> \<and> snd start \<in> \<int> \<and> fst destination \<in> \<int> \<and> snd destination \<in> \<int>
          \<longrightarrow> (canMove start destination ''pawn'' pieces \<longleftrightarrow>
                 \<bar>snd start - snd destination\<bar> = 0 \<and> fst start - fst destination = - 1)
            \<and> (canMove start destination ''pawn'' pieces \<longleftrightarrow>
                 snd destination = snd start \<and> fst destination = fst start + 1))"
proof (intro conjI impI)
  show "canMove start destination ''pawn'' pieces \<longleftrightarrow>
          \<bar>minus64 (snd start) (snd destination)\<bar> = 0
          \<and> minus64 (fst start) (fst destination) = - 1"
    using assms by (simp add: canMove_iff isEqualCoord_eq)
next
  assume ints: "fst start \<in> \<int> \<and> snd start \<in> \<int> \<and> fst destination \<in> \<int>
                \<and> snd destination \<in> \<int>"
  then have exact: "canMove start destination ''pawn'' pieces \<longleftrightarrow>
      snd start = snd destination \<and> fst start - fst destination = - 1"
    using assms canMove_Ints [of "fst start" "snd start" "fst destination" "snd destination"
        "''pawn''" pieces]
    by (simp add: isEqualCoord_eq)
  then show "canMove start destination ''pawn'' pieces \<longleftrightarrow>
      \<bar>snd start - snd destination\<bar> = 0 \<and> fst start - fst destination = - 1"
    by simp
  from exact show "canMove start destination ''pawn'' pieces \<longleftrightarrow>
      snd destination = snd start \<and> fst destination = fst start + 1"
    by auto
qed

text \<open>
  The rule at the pawn of the initial placement: from \<open>(1, 6)\<close> the square \<open>(2, 6)\<close> is
  legal.
\<close>

theorem canMove_pawn_witness:
  "canMove (1, 6) (2, 6) ''pawn'' [\<lparr>type = ''pawn'', location = (1, 6)\<rparr>]"
proof -
  have free: "\<forall>piece \<in> set [\<lparr>type = ''pawn'', location = (1, 6)\<rparr>].
                \<not> isEqualCoord (location piece) (2, 6)"
    by (simp add: isEqualCoord_def)
  from canMove_pawn [OF free, of "(1, 6)", THEN conjunct2] show ?thesis by simp
qed

text \<open>
  C1 as the claim words it (legal when \<open>destination.row - origin.row = -1\<close>) fails: with
  only the pawn at \<open>(1, 6)\<close> on the board, the move to \<open>(0, 6)\<close> has column delta 0 and
  row difference \<open>0 - 1 = -1\<close>, and the code rejects it, since it computes
  \<open>1 - 0 = 1\<close>; the move to \<open>(2, 6)\<close>, which the claim calls illegal, is accepted.
\<close>

theorem canMove_pawn_decreasing_row_counterexample:
  "\<not> canMove (1, 6) (0, 6) ''pawn'' [\<lparr>type = ''pawn'', location = (1, 6)\<rparr>]
   \<and> canMove (1, 6) (2, 6) ''pawn'' [\<lparr>type = ''pawn'', location = (1, 6)\<rparr>]"
  by (simp add: canMove_Ints)

text \<open>
  C3 (king legality). On a board whose destination square is free, a king move is legal
  exactly when the absolute row difference and the absolute column difference, as the
  code computes them, are both 0 or 1. For integer-valued coordinates, the coordinates
  of the spec, these are the exact differences. This includes the move of distance zero.
\<close>

theorem canMove_king:
  assumes "\<forall>piece \<in> set pieces. \<not> isEqualCoord (location piece) destination"
  shows "(canMove start destination ''king'' pieces \<longleftrightarrow>
            \<bar>minus64 (fst start) (fst destination)\<bar> \<in> {0, 1}
            \<and> \<bar>minus64 (snd start) (snd destination)\<bar> \<in> {0, 1})
       \<and> (fst start \<in> \<int> \<and> snd start \<in> \<int> \<and> fst destination \<in> \<int> \<and> snd destination \<in> \<int>
          \<longrightarrow> (canMove start destination ''king'' pieces \<longleftrightarrow>
                 \<bar>fst start - fst destination\<bar> \<in> {0, 1}
                 \<and> \<bar>snd start - snd destination\<bar> \<in> {0, 1}))"
proof (intro conjI impI)
  show "canMove start destination ''king'' pieces \<longleftrightarrow>
          \<bar>minus64 (fst start) (fst destination)\<bar> \<in> {0, 1}
          \<and> \<bar>minus64 (snd start) (snd destination)\<bar> \<in> {0, 1}"
    using assms by (simp add: canMove_iff isEqualCoord_eq)
next
  assume ints: "fst start \<in> \<int> \<and> snd start \<in> \<int> \<and> fst destination \<in> \<int>
                \<and> snd destination \<in> \<int>"
  then show "canMove start destination ''king'' pieces \<longleftrightarrow>
      \<bar>fst start - fst destination\<bar> \<in> {0, 1} \<and> \<bar>snd start - snd destination\<bar> \<in> {0, 1}"
    using assms canMove_Ints [of "fst start" "snd start" "fst destination" "snd destination"
        "''king''" pieces]
    by (simp add: isEqualCoord_eq)
qed

text \<open>
  On the initial board the king at \<open>(3, 2)\<close> may step to \<open>(4, 3)\<close> and may not jump to
  \<open>(5, 2)\<close>; a king payload from the free square \<open>(0, 0)\<close> to itself is accepted.
\<close>

theorem canMove_king_witness:
  "canMove (3, 2) (4, 3) ''king'' (map snd initialPieces)
   \<and> \<not> canMove (3, 2) (5, 2) ''king'' (map snd initialPieces)
   \<and> canMove (0, 0) (0, 0) ''king'' (map snd initialPieces)"
proof -
  have free: "\<forall>piece \<in> set (map snd initialPieces). \<not> isEqualCoord (location piece) (4, 3)"
       "\<forall>piece \<in> set (map snd initialPieces). \<not> isEqualCoord (location piece) (5, 2)"
       "\<forall>piece \<in> set (map snd initialPieces). \<not> isEqualCoord (location piece) (0, 0)"
    by (simp_all add: initialPieces_def isEqualCoord_def)
  show ?thesis
    using canMove_king [OF free(1), of "(3, 2)", THEN conjunct2]
      canMove_king [OF free(2), of "(3, 2)", THEN conjunct2]
      canMove_king [OF free(3), of "(0, 0)", THEN conjunct2]
    by simp
qed

text \<open>
  C8 (a piece cannot move to its own square). If some piece of the board sits on \<open>c\<close>,
  then \<open>canMove\<close> from \<open>c\<close> to \<open>c\<close> is false for every piece type, because the occupancy
  test counts the mover itself; the king's move of distance zero is accepted exactly
  when no piece at all is on \<open>c\<close>.
\<close>

theorem canMove_own_square:
  "((\<exists>piece \<in> set pieces. location piece = c) \<longrightarrow> \<not> canMove c c pieceType pieces)
   \<and> (canMove c c ''king'' pieces \<longleftrightarrow> \<not> (\<exists>piece \<in> set pieces. location piece = c))"
  by (auto simp: canMove_iff minus64_self)

theorem canMove_own_square_witness:
  "(\<exists>piece \<in> set (map snd initialPieces). location piece = (3, 2))
   \<and> \<not> canMove (3, 2) (3, 2) ''king'' (map snd initialPieces)"
proof -
  have occ: "\<exists>piece \<in> set (map snd initialPieces). location piece = (3, 2)"
    by (simp add: initialPieces_def)
  with canMove_own_square [of "map snd initialPieces" "(3, 2)" "''king''"]
  show ?thesis by blast
qed

text \<open>
  The drop target of a square refuses a payload that comes from the same square.
\<close>

lemma Square_canDrop_own_square: "\<not> Square_canDrop loc (Piece_getInitialData loc pieceType)"
  by (simp add: Square_canDrop_def Piece_getInitialData_def fromCoord_def isEqualCoord_def)

section \<open>The drop handler, case by case\<close>

lemma onDrop_no_target: "dropTargets ev = [] \<Longrightarrow> Chessboard_onDrop pieces ev = pieces"
  by (simp add: Chessboard_onDrop_def)

lemma onDrop_malformed:
  assumes "dropTargets ev = t # ts"
    and "\<not> isCoord (t ''location'') \<or> \<not> isCoord (source ev ''location'')
         \<or> \<not> isPieceType (source ev ''pieceType'')"
  shows "Chessboard_onDrop pieces ev = pieces"
  using assms by (auto simp: Chessboard_onDrop_def Let_def)

lemma onDrop_wellformed:
  assumes "dropTargets ev = t # ts"
    and "toCoord (t ''location'') = Some dst"
    and "toCoord (source ev ''location'') = Some src"
    and "toPieceType (source ev ''pieceType'') = Some kind"
  shows "Chessboard_onDrop pieces ev =
           (case find (\<lambda>p. isEqualCoord (location (snd p)) src) pieces of
              None \<Rightarrow> pieces
            | Some found \<Rightarrow>
                if canMove src dst kind (map snd pieces)
                then (freshRef pieces, \<lparr>type = type (snd found), location = dst\<rparr>)
                       # filter (\<lambda>p. fst p \<noteq> fst found) pieces
                else pieces)"
proof -
  have "isCoord (t ''location'')" "isCoord (source ev ''location'')"
       "isPieceType (source ev ''pieceType'')"
    using assms by (simp_all add: isCoord_toCoord isPieceType_toPieceType)
  then show ?thesis
    using assms by (simp add: Chessboard_onDrop_def Let_def split: option.splits)
qed

lemma onDrop_cases [case_names noop commit]:
  obtains "Chessboard_onDrop pieces ev = pieces"
  | dst src kind found where
      "dropTargets ev \<noteq> []"
      "toCoord (hd (dropTargets ev) ''location'') = Some dst"
      "toCoord (source ev ''location'') = Some src"
      "toPieceType (source ev ''pieceType'') = Some kind"
      "find (\<lambda>p. isEqualCoord (location (snd p)) src) pieces = Some found"
      "canMove src dst kind (map snd pieces)"
      "Chessboard_onDrop pieces ev =
         (freshRef pieces, \<lparr>type = type (snd found), location = dst\<rparr>)
           # filter (\<lambda>p. fst p \<noteq> fst found) pieces"
proof (cases "dropTargets ev")
  case Nil
  then show ?thesis using that(1) by (simp add: onDrop_no_target)
next
  case (Cons t ts)
  show ?thesis
  proof (cases "isCoord (t ''location'') \<and> isCoord (source ev ''location'')
                \<and> isPieceType (source ev ''pieceType'')")
    case False
    with Cons show ?thesis using that(1) by (simp add: onDrop_malformed)
  next
    case True
    then obtain dst src kind where wf:
      "toCoord (t ''location'') = Some dst"
      "toCoord (source ev ''location'') = Some src"
      "toPieceType (source ev ''pieceType'') = Some kind"
      by (auto simp: isCoord_toCoord isPieceType_toPieceType)
    note eq = onDrop_wellformed [OF Cons wf, of pieces]
    show ?thesis
    proof (cases "find (\<lambda>p. isEqualCoord (location (snd p)) src) pieces")
      case None
      with eq show ?thesis using that(1) by simp
    next
      case (Some found)
      show ?thesis
      proof (cases "canMove src dst kind (map snd pieces)")
        case False
        with eq Some show ?thesis using that(1) by simp
      next
        case True
        with eq Some have "Chessboard_onDrop pieces ev =
            (freshRef pieces, \<lparr>type = type (snd found), location = dst\<rparr>)
              # filter (\<lambda>p. fst p \<noteq> fst found) pieces" by simp
        with Some True wf Cons show ?thesis using that(2) [of dst src kind found] by simp
      qed
    qed
  qed
qed

lemma le_foldr_max: "r \<in> set rs \<Longrightarrow> r \<le> foldr max rs (0::nat)"
  by (induction rs) (auto simp: max_def)

lemma freshRef_fresh: "freshRef pieces \<notin> fst ` set pieces"
proof
  assume "freshRef pieces \<in> fst ` set pieces"
  then have "freshRef pieces \<in> set (map fst pieces)" by simp
  then have "freshRef pieces \<le> foldr max (map fst pieces) 0" by (rule le_foldr_max)
  then show False by (simp add: freshRef_def)
qed

lemma filter_other_refs:
  "distinct (map fst pieces) \<Longrightarrow> found \<in> set pieces \<Longrightarrow>
   filter (\<lambda>p. fst p \<noteq> fst found) pieces = remove1 found pieces"
proof (induction pieces)
  case Nil
  then show ?case by simp
next
  case (Cons p ps)
  show ?case
  proof (cases "p = found")
    case True
    with Cons.prems have "\<forall>q \<in> set ps. fst q \<noteq> fst found" by (auto simp: image_iff)
    then have "filter (\<lambda>q. fst q \<noteq> fst found) ps = ps" by (simp add: filter_id_conv)
    with True show ?thesis by simp
  next
    case False
    with Cons.prems have "found \<in> set ps" and "fst p \<noteq> fst found"
      by (auto simp: image_iff) 
    with Cons show ?thesis using False by simp
  qed
qed

lemma find_Some_loc:
  "find (\<lambda>p. isEqualCoord (location (snd p)) src) pieces = Some found \<Longrightarrow>
   found \<in> set pieces \<and> location (snd found) = src"
  by (auto simp: find_Some_iff isEqualCoord_eq)

lemma reachable_distinct_refs: "reachable pieces \<Longrightarrow> distinct (map fst pieces)"
proof (induction rule: reachable.induct)
  case reachable_init
  show ?case by (simp add: initialPieces_def)
next
  case (reachable_drop pieces ev)
  show ?case
  proof (cases rule: onDrop_cases [of pieces ev])
    case noop
    with reachable_drop.IH show ?thesis by simp
  next
    case (commit dst src kind found)
    have "freshRef pieces \<notin> fst ` set (filter (\<lambda>p. fst p \<noteq> fst found) pieces)"
      using freshRef_fresh [of pieces] by auto
    moreover have "distinct (map fst (filter (\<lambda>p. fst p \<noteq> fst found) pieces))"
      using reachable_drop.IH by (rule distinct_map_filter)
    ultimately show ?thesis by (simp add: commit(7))
  qed
qed

section \<open>Events built from the registered payloads\<close>

lemma dropOn_wellformed:
  assumes "pieceType \<in> set pieceTypes"
  shows "dropTargets (dropOn src pieceType dst) = [Square_getData dst]
    \<and> hd (dropTargets (dropOn src pieceType dst)) = Square_getData dst
    \<and> toCoord (Square_getData dst ''location'') = Some dst
    \<and> toCoord (source (dropOn src pieceType dst) ''location'') = Some src
    \<and> toPieceType (source (dropOn src pieceType dst) ''pieceType'') = Some pieceType"
  using assms
  by (simp add: dropOn_def Square_getData_def Piece_getInitialData_def
      toCoord_fromCoord)

lemma initial_find_king:
  "find (\<lambda>p. isEqualCoord (location (snd p)) (3, 2)) initialPieces
     = Some (0, \<lparr>type = ''king'', location = (3, 2)\<rparr>)"
  by (simp add: initialPieces_def isEqualCoord_def)

lemma pieceTypes_mem: "''king'' \<in> set pieceTypes" "''pawn'' \<in> set pieceTypes"
  by (simp_all add: pieceTypes_def)

lemma canMove_unoccupied:
  "canMove src dst kind pieces \<Longrightarrow> dst \<notin> location ` set pieces"
  by (auto simp: canMove_iff)

section \<open>Committing a move\<close>

text \<open>
  The frame of a commit on any array that holds each object once: the new array is a new
  object at the destination, followed by the old array without the piece that was found.
\<close>

lemma commit_frame_no_alias:
  assumes "dropTargets ev = t # ts"
    and "toCoord (t ''location'') = Some dst"
    and "toCoord (source ev ''location'') = Some src"
    and "toPieceType (source ev ''pieceType'') = Some kind"
    and "find (\<lambda>p. isEqualCoord (location (snd p)) src) pieces = Some found"
    and "canMove src dst kind (map snd pieces)"
    and "distinct (map fst pieces)"
  shows "Chessboard_onDrop pieces ev =
           (freshRef pieces, \<lparr>type = type (snd found), location = dst\<rparr>)
             # remove1 found pieces"
    and "length (Chessboard_onDrop pieces ev) = length pieces"
proof -
  from assms(5) have found: "found \<in> set pieces"
    using find_Some_loc [of src pieces found] by simp
  with assms(7) have "filter (\<lambda>p. fst p \<noteq> fst found) pieces = remove1 found pieces"
    by (rule filter_other_refs)
  with onDrop_wellformed [OF assms(1-4), of pieces] assms(5,6)
  show new: "Chessboard_onDrop pieces ev =
           (freshRef pieces, \<lparr>type = type (snd found), location = dst\<rparr>)
             # remove1 found pieces"
    by simp
  have "0 < length pieces" using found by (rule length_pos_if_in_set)
  then show "length (Chessboard_onDrop pieces ev) = length pieces"
    using found by (simp add: new length_remove1)
qed

text \<open>
  C4 (frame condition of a commit). On every board the component can hold: if the
  payload is well formed, \<open>found\<close> is the piece \<open>find\<close> returns for the origin and
  \<open>canMove\<close> approves, then the new array has the length of the old one; its first
  element is a new object that has the type of \<open>found\<close> and lies on the destination (the
  piece formerly at the origin, relocated); the elements after it are the old
  array without \<open>found\<close>, in the old order and untouched. And for every event: when no
  piece sits on the payload's origin, the array is returned as it was.
\<close>

theorem onDrop_commit_frame:
  "(reachable pieces
      \<and> dropTargets ev = t # ts \<and> toCoord (t ''location'') = Some dst
      \<and> toCoord (source ev ''location'') = Some src
      \<and> toPieceType (source ev ''pieceType'') = Some kind
      \<and> find (\<lambda>p. isEqualCoord (location (snd p)) src) pieces = Some found
      \<and> canMove src dst kind (map snd pieces)
    \<longrightarrow> length (Chessboard_onDrop pieces ev) = length pieces
        \<and> found \<in> set pieces \<and> location (snd found) = src
        \<and> type (snd (hd (Chessboard_onDrop pieces ev))) = type (snd found)
        \<and> location (snd (hd (Chessboard_onDrop pieces ev))) = dst
        \<and> fst (hd (Chessboard_onDrop pieces ev)) \<notin> fst ` set pieces
        \<and> tl (Chessboard_onDrop pieces ev) = remove1 found pieces)
   \<and> ((\<forall>src. toCoord (source ev ''location'') = Some src \<longrightarrow>
          find (\<lambda>p. isEqualCoord (location (snd p)) src) pieces = None)
    \<longrightarrow> Chessboard_onDrop pieces ev = pieces)"
proof (intro conjI impI)
  assume a: "reachable pieces
      \<and> dropTargets ev = t # ts \<and> toCoord (t ''location'') = Some dst
      \<and> toCoord (source ev ''location'') = Some src
      \<and> toPieceType (source ev ''pieceType'') = Some kind
      \<and> find (\<lambda>p. isEqualCoord (location (snd p)) src) pieces = Some found
      \<and> canMove src dst kind (map snd pieces)"
  then have "distinct (map fst pieces)" by (simp add: reachable_distinct_refs)
  with a have new: "Chessboard_onDrop pieces ev =
      (freshRef pieces, \<lparr>type = type (snd found), location = dst\<rparr>) # remove1 found pieces"
    and len: "length (Chessboard_onDrop pieces ev) = length pieces"
    using commit_frame_no_alias [of ev t ts dst src kind pieces found] by simp_all
  from a show "found \<in> set pieces" "location (snd found) = src"
    using find_Some_loc [of src pieces found] by simp_all
  show "length (Chessboard_onDrop pieces ev) = length pieces" by (rule len)
  show "type (snd (hd (Chessboard_onDrop pieces ev))) = type (snd found)"
    by (simp add: new)
  show "location (snd (hd (Chessboard_onDrop pieces ev))) = dst"
    by (simp add: new)
  show "fst (hd (Chessboard_onDrop pieces ev)) \<notin> fst ` set pieces"
    using freshRef_fresh [of pieces] by (simp add: new)
  show "tl (Chessboard_onDrop pieces ev) = remove1 found pieces"
    by (simp add: new)
next
  assume none: "\<forall>src. toCoord (source ev ''location'') = Some src \<longrightarrow>
          find (\<lambda>p. isEqualCoord (location (snd p)) src) pieces = None"
  show "Chessboard_onDrop pieces ev = pieces"
  proof (cases rule: onDrop_cases [of pieces ev])
    case noop
    then show ?thesis .
  next
    case (commit dst src kind found)
    with none show ?thesis by simp
  qed
qed

text \<open>
  On the initial board, dropping the king from \<open>(3, 2)\<close> on \<open>(4, 3)\<close> leaves two pieces:
  a king at \<open>(4, 3)\<close>, and the pawn where it was.
\<close>

theorem onDrop_commit_frame_witness:
  "length (Chessboard_onDrop initialPieces (dropOn (3, 2) ''king'' (4, 3))) = 2
   \<and> type (snd (hd (Chessboard_onDrop initialPieces (dropOn (3, 2) ''king'' (4, 3)))))
       = ''king''
   \<and> location (snd (hd (Chessboard_onDrop initialPieces (dropOn (3, 2) ''king'' (4, 3)))))
       = (4, 3)
   \<and> tl (Chessboard_onDrop initialPieces (dropOn (3, 2) ''king'' (4, 3)))
       = [(1, \<lparr>type = ''pawn'', location = (1, 6)\<rparr>)]"
proof -
  let ?ev = "dropOn (3, 2) ''king'' (4, 3)"
  have hyp: "reachable initialPieces
      \<and> dropTargets ?ev = Square_getData (4, 3) # []
      \<and> toCoord (Square_getData (4, 3) ''location'') = Some (4, 3)
      \<and> toCoord (source ?ev ''location'') = Some (3, 2)
      \<and> toPieceType (source ?ev ''pieceType'') = Some ''king''
      \<and> find (\<lambda>p. isEqualCoord (location (snd p)) (3, 2)) initialPieces
          = Some (0, \<lparr>type = ''king'', location = (3, 2)\<rparr>)
      \<and> canMove (3, 2) (4, 3) ''king'' (map snd initialPieces)"
    using dropOn_wellformed [OF pieceTypes_mem(1), where src = "(3, 2)" and dst = "(4, 3)"]
    by (simp add: initial_find_king reachable_init)
       (simp add: canMove_Ints initialPieces_def)
  have "length initialPieces = 2"
    and "remove1 (0, \<lparr>type = ''king'', location = (3, 2)\<rparr>) initialPieces
           = [(1, \<lparr>type = ''pawn'', location = (1, 6)\<rparr>)]"
    by (simp_all add: initialPieces_def)
  with hyp onDrop_commit_frame [of initialPieces ?ev "Square_getData (4, 3)" "[]" "(4, 3)"
      "(3, 2)" "''king''" "(0, \<lparr>type = ''king'', location = (3, 2)\<rparr>)"]
  show ?thesis by simp
qed

text \<open>
  C10 (the committed piece keeps its stored type). For a well-formed drop whose origin
  holds the piece \<open>found\<close>, legality is decided by \<open>canMove\<close> on the payload's
  \<open>pieceType\<close>, and the piece placed on the destination has the type stored in \<open>found\<close>;
  the payload's type is not written to the board.
\<close>

theorem onDrop_keeps_stored_type:
  assumes "dropTargets ev = t # ts"
    and "toCoord (t ''location'') = Some dst"
    and "toCoord (source ev ''location'') = Some src"
    and "toPieceType (source ev ''pieceType'') = Some kind"
    and "find (\<lambda>p. isEqualCoord (location (snd p)) src) pieces = Some found"
  shows "if canMove src dst kind (map snd pieces)
         then snd (hd (Chessboard_onDrop pieces ev))
                = \<lparr>type = type (snd found), location = dst\<rparr>
         else Chessboard_onDrop pieces ev = pieces"
  using onDrop_wellformed [OF assms(1-4), of pieces] assms(5) by simp

text \<open>
  A payload that names the king's square \<open>(3, 2)\<close> but says \<open>pawn\<close>: the step to
  \<open>(4, 2)\<close> is judged as a pawn move and accepted, and the piece placed there is still a
  king; the step to \<open>(3, 3)\<close>, legal for a king, is refused.
\<close>

theorem onDrop_keeps_stored_type_witness:
  "snd (hd (Chessboard_onDrop initialPieces (dropOn (3, 2) ''pawn'' (4, 2))))
     = \<lparr>type = ''king'', location = (4, 2)\<rparr>
   \<and> Chessboard_onDrop initialPieces (dropOn (3, 2) ''pawn'' (3, 3)) = initialPieces"
proof -
  have legal: "canMove (3, 2) (4, 2) ''pawn'' (map snd initialPieces)"
    "\<not> canMove (3, 2) (3, 3) ''pawn'' (map snd initialPieces)"
    by (simp_all add: canMove_Ints initialPieces_def)
  note ev1 = dropOn_wellformed [OF pieceTypes_mem(2), where src = "(3, 2)" and dst = "(4, 2)"]
  note ev2 = dropOn_wellformed [OF pieceTypes_mem(2), where src = "(3, 2)" and dst = "(3, 3)"]
  have "snd (hd (Chessboard_onDrop initialPieces (dropOn (3, 2) ''pawn'' (4, 2))))
     = \<lparr>type = ''king'', location = (4, 2)\<rparr>"
    using onDrop_keeps_stored_type [of "dropOn (3, 2) ''pawn'' (4, 2)"
        "Square_getData (4, 2)" "[]" "(4, 2)" "(3, 2)" "''pawn''" initialPieces
        "(0, \<lparr>type = ''king'', location = (3, 2)\<rparr>)"]
      ev1 initial_find_king legal(1)
    by simp
  moreover have "Chessboard_onDrop initialPieces (dropOn (3, 2) ''pawn'' (3, 3)) = initialPieces"
    using onDrop_keeps_stored_type [of "dropOn (3, 2) ''pawn'' (3, 3)"
        "Square_getData (3, 3)" "[]" "(3, 3)" "(3, 2)" "''pawn''" initialPieces
        "(0, \<lparr>type = ''king'', location = (3, 2)\<rparr>)"]
      ev2 initial_find_king legal(2)
    by simp
  ultimately show ?thesis by simp
qed

section \<open>Drops that change nothing\<close>

text \<open>
  C5 (silent no-op paths). If there is no drop target under the release point, or the
  destination, the origin or the piece type fails its guard, or no piece of the board
  sits on the origin, or \<open>canMove\<close> returns false, the handler returns the board it was
  given. The handler is a total function with no error result: nothing is raised.
\<close>

theorem onDrop_noop:
  assumes "dropTargets ev = []
     \<or> \<not> isCoord (hd (dropTargets ev) ''location'')
     \<or> \<not> isCoord (source ev ''location'')
     \<or> \<not> isPieceType (source ev ''pieceType'')
     \<or> (\<exists>src. toCoord (source ev ''location'') = Some src
            \<and> find (\<lambda>p. isEqualCoord (location (snd p)) src) pieces = None)
     \<or> (\<exists>dst src kind. toCoord (hd (dropTargets ev) ''location'') = Some dst
            \<and> toCoord (source ev ''location'') = Some src
            \<and> toPieceType (source ev ''pieceType'') = Some kind
            \<and> \<not> canMove src dst kind (map snd pieces))"
  shows "Chessboard_onDrop pieces ev = pieces"
proof (cases rule: onDrop_cases [of pieces ev])
  case noop
  then show ?thesis .
next
  case (commit dst src kind found)
  then have "isCoord (hd (dropTargets ev) ''location'')" "isCoord (source ev ''location'')"
      "isPieceType (source ev ''pieceType'')"
    by (simp_all add: isCoord_toCoord isPieceType_toPieceType)
  with commit assms show ?thesis by auto
qed

text \<open>
  On the initial board: a release outside every square, a payload whose location is a
  string, a payload of an unknown piece type, an origin with no piece, and an illegal
  king move all leave the board as it is.
\<close>

theorem onDrop_noop_witness:
  "Chessboard_onDrop initialPieces \<lparr>source = Piece_getInitialData (3, 2) ''king'',
                                     dropTargets = []\<rparr> = initialPieces
   \<and> Chessboard_onDrop initialPieces
        \<lparr>source = emptyData(''location'' := JString ''e4'', ''pieceType'' := JString ''king''),
         dropTargets = [Square_getData (4, 3)]\<rparr> = initialPieces
   \<and> Chessboard_onDrop initialPieces (dropOn (3, 2) ''queen'' (4, 3)) = initialPieces
   \<and> Chessboard_onDrop initialPieces (dropOn (5, 5) ''king'' (4, 5)) = initialPieces
   \<and> Chessboard_onDrop initialPieces (dropOn (3, 2) ''king'' (5, 2)) = initialPieces"
proof -
  let ?noTarget = "\<lparr>source = Piece_getInitialData (3, 2) ''king'', dropTargets = []\<rparr>"
  let ?badCoord = "\<lparr>source = emptyData(''location'' := JString ''e4'',
                                       ''pieceType'' := JString ''king''),
                    dropTargets = [Square_getData (4, 3)]\<rparr>"
  have 1: "Chessboard_onDrop initialPieces ?noTarget = initialPieces"
    by (rule onDrop_noop) simp
  have 2: "Chessboard_onDrop initialPieces ?badCoord = initialPieces"
    by (rule onDrop_noop) simp
  have 3: "Chessboard_onDrop initialPieces (dropOn (3, 2) ''queen'' (4, 3)) = initialPieces"
    by (rule onDrop_noop)
       (simp add: dropOn_def Piece_getInitialData_def pieceTypes_def)
  have "find (\<lambda>p. isEqualCoord (location (snd p)) (5, 5)) initialPieces = None"
    by (simp add: initialPieces_def isEqualCoord_def)
  then have 4: "Chessboard_onDrop initialPieces (dropOn (5, 5) ''king'' (4, 5)) = initialPieces"
    using dropOn_wellformed [OF pieceTypes_mem(1), where src = "(5, 5)" and dst = "(4, 5)"]
    by (intro onDrop_noop) simp
  have "\<not> canMove (3, 2) (5, 2) ''king'' (map snd initialPieces)"
    by (simp add: canMove_Ints initialPieces_def)
  then have 5: "Chessboard_onDrop initialPieces (dropOn (3, 2) ''king'' (5, 2)) = initialPieces"
    using dropOn_wellformed [OF pieceTypes_mem(1), where src = "(3, 2)" and dst = "(5, 2)"]
    by (intro onDrop_noop) simp
  from 1 2 3 4 5 show ?thesis by blast
qed

section \<open>Hover classification\<close>

text \<open>
  C6 (hover classification). On hover-enter with a payload that passes both guards, the
  square's state becomes \<open>validMove\<close> if \<open>canMove\<close> from the payload's location to the
  square, for the payload's piece type, on the current board, is true, and
  \<open>invalidMove\<close> otherwise; with a payload that fails a guard the state is unchanged;
  hover-leave and drop set the state to \<open>idle\<close> from any state.
\<close>

theorem Square_hover:
  "(isCoord (payload ''location'') \<and> isPieceType (payload ''pieceType'') \<longrightarrow>
      (\<exists>src kind. toCoord (payload ''location'') = Some src
         \<and> toPieceType (payload ''pieceType'') = Some kind
         \<and> Square_onDragEnter pieces loc payload state =
             (if canMove src loc kind pieces then validMove else invalidMove)))
   \<and> (\<not> (isCoord (payload ''location'') \<and> isPieceType (payload ''pieceType'')) \<longrightarrow>
        Square_onDragEnter pieces loc payload state = state)
   \<and> Square_onDragLeave state = idle
   \<and> Square_onDrop state = idle"
  by (auto simp: Square_onDragEnter_def Square_onDragLeave_def Square_onDrop_def
      isCoord_toCoord isPieceType_toPieceType)

text \<open>
  On the initial board the king's payload turns \<open>(4, 3)\<close> valid and \<open>(5, 2)\<close> invalid; a
  payload without \<open>pieceType\<close> leaves a square's state alone.
\<close>

theorem Square_hover_witness:
  "Square_onDragEnter (map snd initialPieces) (4, 3) (Piece_getInitialData (3, 2) ''king'') idle
     = validMove
   \<and> Square_onDragEnter (map snd initialPieces) (5, 2) (Piece_getInitialData (3, 2) ''king'')
       validMove = invalidMove
   \<and> Square_onDragEnter (map snd initialPieces) (4, 3)
       (emptyData(''location'' := fromCoord (3, 2))) validMove = validMove"
proof -
  let ?king = "Piece_getInitialData (3, 2) ''king''"
  let ?foreign = "emptyData(''location'' := fromCoord (3, 2))"
  have wf: "isCoord (?king ''location'') \<and> isPieceType (?king ''pieceType'')"
    "toCoord (?king ''location'') = Some (3, 2)"
    "toPieceType (?king ''pieceType'') = Some ''king''"
    by (simp_all add: Piece_getInitialData_def fromCoord_def pieceTypes_def)
  have bad: "\<not> (isCoord (?foreign ''location'') \<and> isPieceType (?foreign ''pieceType''))"
    by (simp add: emptyData_def)
  have legal: "canMove (3, 2) (4, 3) ''king'' (map snd initialPieces)"
    "\<not> canMove (3, 2) (5, 2) ''king'' (map snd initialPieces)"
    by (simp_all add: canMove_Ints initialPieces_def)
  show ?thesis
    using Square_hover [of ?king "map snd initialPieces" "(4, 3)" idle]
      Square_hover [of ?king "map snd initialPieces" "(5, 2)" validMove]
      Square_hover [of ?foreign "map snd initialPieces" "(4, 3)" validMove]
      wf bad legal
    by auto
qed

section \<open>The occupancy invariant\<close>

text \<open>
  C7 (one piece per square). Every board reachable from the initial placement by drop
  events has pairwise distinct piece locations.
\<close>

theorem reachable_unique_locations:
  assumes "reachable pieces"
  shows "distinct (map (\<lambda>p. location (snd p)) pieces)"
  using assms
proof (induction rule: reachable.induct)
  case reachable_init
  show ?case by (simp add: initialPieces_def)
next
  case (reachable_drop pieces ev)
  show ?case
  proof (cases rule: onDrop_cases [of pieces ev])
    case noop
    with reachable_drop.IH show ?thesis by simp
  next
    case (commit dst src kind found)
    let ?rest = "filter (\<lambda>p. fst p \<noteq> fst found) pieces"
    from commit(6) have "dst \<notin> location ` set (map snd pieces)"
      by (rule canMove_unoccupied)
    then have "dst \<notin> (\<lambda>p. location (snd p)) ` set ?rest" by auto
    moreover have "distinct (map (\<lambda>p. location (snd p)) ?rest)"
      using reachable_drop.IH by (rule distinct_map_filter)
    ultimately show ?thesis by (simp add: commit(7))
  qed
qed

text \<open>The board after dropping the king on \<open>(4, 3)\<close> is reachable, hence has the property.\<close>

theorem reachable_unique_locations_witness:
  "reachable (Chessboard_onDrop initialPieces (dropOn (3, 2) ''king'' (4, 3)))
   \<and> distinct (map (\<lambda>p. location (snd p))
        (Chessboard_onDrop initialPieces (dropOn (3, 2) ''king'' (4, 3))))"
proof -
  have r: "reachable (Chessboard_onDrop initialPieces (dropOn (3, 2) ''king'' (4, 3)))"
    by (intro reachable.intros)
  from r reachable_unique_locations [OF r] show ?thesis by simp
qed

section \<open>Coordinates are not range-checked\<close>

text \<open>
  C9 (no bounds in \<open>isCoord\<close>). Every array of two numbers passes \<open>isCoord\<close>, whatever
  the numbers: negative, fractional or beyond 7. Nothing later filters them either:
  four drops walk the king from \<open>(3, 2)\<close> off the board to \<open>(3, -2)\<close>, and the last of
  them, whose origin \<open>(3, -1)\<close> is already outside the grid, is committed like any other.
\<close>

theorem isCoord_unbounded:
  "isCoord (JArray [JNumber a, JNumber b])
   \<and> isCoord (fromCoord (- 1, 15 / 2))
   \<and> foldl Chessboard_onDrop initialPieces
        [dropOn (3, 2) ''king'' (3, 1), dropOn (3, 1) ''king'' (3, 0),
         dropOn (3, 0) ''king'' (3, - 1), dropOn (3, - 1) ''king'' (3, - 2)]
       = [(5, \<lparr>type = ''king'', location = (3, - 2)\<rparr>),
          (1, \<lparr>type = ''pawn'', location = (1, 6)\<rparr>)]"
  apply (simp add: fromCoord_def)
  apply (simp add: Chessboard_onDrop_def dropOn_def Piece_getInitialData_def Square_getData_def
      fromCoord_def pieceTypes_def initialPieces_def isEqualCoord_def canMove_Ints freshRef_def
      emptyData_def Let_def)
  done

text \<open>The guard at a negative and fractional pair, and at a pair beyond the grid.\<close>

theorem isCoord_unbounded_witness:
  "isCoord (JArray [JNumber (- 1), JNumber (15 / 2)]) \<and> isCoord (JArray [JNumber 8, JNumber 100])"
  using isCoord_unbounded [of "- 1" "15 / 2"] isCoord_unbounded [of 8 100]
  by (intro conjI) (erule conjunct1)+

end
